theory Spec2Isabelle
  imports Main
begin

section \<open>Strings and the Node.js library\<close>

text \<open>
  A JavaScript string is a sequence of UTF-16 code units. The model writes it as a HOL
  \<open>string\<close>, one \<open>char\<close> per code unit, so it covers the strings whose code units lie
  below 256 (ASCII and Latin-1); \<open>length\<close> is JavaScript's \<open>.length\<close>.
\<close>

definition startsWith :: "string \<Rightarrow> string \<Rightarrow> bool" where
  "startsWith str s = (take (length s) str = s)"

definition endsWith :: "string \<Rightarrow> string \<Rightarrow> bool" where
  "endsWith str s = (length s \<le> length str \<and> drop (length str - length s) str = s)"

definition toLowerCaseChar :: "char \<Rightarrow> char" where
  "toLowerCaseChar c =
     (let n = (of_char c :: nat)
      in if (65 \<le> n \<and> n \<le> 90) \<or> (192 \<le> n \<and> n \<le> 222 \<and> n \<noteq> 215)
         then char_of (n + 32) else c)"

definition toLowerCase :: "string \<Rightarrow> string" where
  "toLowerCase s = map toLowerCaseChar s"

text \<open>
  \<open>path.basename\<close> and \<open>path.extname\<close> of the POSIX \<open>path\<close> module: the last
  component of a path, trailing separators ignored, and that component's text from its
  last dot on (empty when it has no dot, when the only dot leads it, or when it is
  \<open>..\<close>).
\<close>

definition basename :: "string \<Rightarrow> string" where
  "basename p =
     rev (takeWhile (\<lambda>c. c \<noteq> CHR ''/'') (dropWhile (\<lambda>c. c = CHR ''/'') (rev p)))"

definition extname :: "string \<Rightarrow> string" where
  "extname p =
     (let b = basename p;
          ext = takeWhile (\<lambda>c. c \<noteq> CHR ''.'') (rev b);
          stem = drop (Suc (length ext)) (rev b)
      in if CHR ''.'' \<notin> set b \<or> stem = [] \<or> b = ''..'' then [] else CHR ''.'' # rev ext)"

text \<open>
  The other library functions the code calls lie outside the repository. They are
  parameters of the model, collected in one record: \<open>path.join\<close>, \<open>path.dirname\<close>,
  \<open>path.relative\<close>, \<open>String.prototype.localeCompare\<close> and the conversion of a number
  to its decimal text inside a template literal.
\<close>

record node_lib =
  path_join :: "string list \<Rightarrow> string"
  path_dirname :: "string \<Rightarrow> string"
  path_relative :: "string \<Rightarrow> string \<Rightarrow> string"
  localeCompare :: "string \<Rightarrow> string \<Rightarrow> int"
  numberToString :: "int \<Rightarrow> string"

section \<open>The file tree (\<open>getFileTree\<close>)\<close>

text \<open>
  What the scan finds on disk at a path. \<open>fs.statSync\<close> throws for \<open>Unstatable\<close> (a
  dangling link, a permission or I/O error), reports a file with its size for \<open>File\<close>
  and a directory for the other two. \<open>fs.readdirSync\<close> yields the entries of a
  \<open>Directory\<close> in the order the system lists them and throws for everything else
  (\<open>UnreadableDirectory\<close>: a directory whose listing is refused).
\<close>

datatype fs_node =
    File nat
  | Directory "(string \<times> fs_node) list"
  | UnreadableDirectory
  | Unstatable

datatype item_type = TypeDirectory | TypeFile

datatype tree_item =
    DirectoryItem string string "tree_item list"
  | FileItem string string string nat

text \<open>
  \<open>DirectoryItem name path children\<close> is \<open>{name, type: 'directory', path, children}\<close> and
  \<open>FileItem name path extension size\<close> is \<open>{name, type: 'file', path, extension, size}\<close>.
\<close>

fun item_name :: "tree_item \<Rightarrow> string" where
  "item_name (DirectoryItem n p ch) = n"
| "item_name (FileItem n p e sz) = n"

fun item_kind :: "tree_item \<Rightarrow> item_type" where
  "item_kind (DirectoryItem n p ch) = TypeDirectory"
| "item_kind (FileItem n p e sz) = TypeFile"

fun item_children :: "tree_item \<Rightarrow> tree_item list" where
  "item_children (DirectoryItem n p ch) = ch"
| "item_children (FileItem n p e sz) = []"

text \<open>The comparator handed to \<open>items.sort\<close>.\<close>

definition compareItems :: "node_lib \<Rightarrow> tree_item \<Rightarrow> tree_item \<Rightarrow> int" where
  "compareItems L a b =
     (if item_kind a = item_kind b then localeCompare L (item_name a) (item_name b)
      else if item_kind a = TypeDirectory then - 1 else 1)"

text \<open>
  \<open>Array.prototype.sort\<close> is a stable sort. For a comparator that orders the elements
  consistently every stable sort returns the same array; the model computes it by
  insertion from the right.
\<close>

fun insert_by :: "('a \<Rightarrow> 'a \<Rightarrow> int) \<Rightarrow> 'a \<Rightarrow> 'a list \<Rightarrow> 'a list" where
  "insert_by cmp x [] = [x]"
| "insert_by cmp x (y # ys) = (if cmp x y \<le> 0 then x # y # ys else y # insert_by cmp x ys)"

definition sort_by :: "('a \<Rightarrow> 'a \<Rightarrow> int) \<Rightarrow> 'a list \<Rightarrow> 'a list" where
  "sort_by cmp xs = foldr (insert_by cmp) xs []"

text \<open>
  \<open>getFileTree dir prefix\<close>. \<open>scan\<close> is the \<open>for\<close> loop over the listing with the items
  pushed so far; the \<open>try\<close> block encloses the whole loop, so an exception of
  \<open>statSync\<close> leaves the loop and the function goes on to sort what was pushed before.
\<close>

function (sequential)
  getFileTree :: "node_lib \<Rightarrow> fs_node \<Rightarrow> string \<Rightarrow> tree_item list" and
  scan :: "node_lib \<Rightarrow> (string \<times> fs_node) list \<Rightarrow> string \<Rightarrow> tree_item list \<Rightarrow> tree_item list"
where
  "getFileTree L (Directory files) prefix = sort_by (compareItems L) (scan L files prefix [])"
| "getFileTree L node prefix = sort_by (compareItems L) []"
| "scan L [] prefix items = items"
| "scan L ((file, node) # rest) prefix items =
     (if startsWith file ''.'' \<and> \<not> endsWith file ''.html'' then scan L rest prefix items
      else if file = ''node_modules'' then scan L rest prefix items
      else
        (let relativePath = path_join L [prefix, file]
         in case node of
              Unstatable \<Rightarrow> items
            | File sz \<Rightarrow>
                scan L rest prefix
                  (items @ [FileItem file relativePath (toLowerCase (extname file)) sz])
            | _ \<Rightarrow>
                scan L rest prefix
                  (items @ [DirectoryItem file relativePath (getFileTree L node relativePath)])))"
  by pat_completeness auto
termination
  by (relation "measure (\<lambda>x. case x of
          Inl (L, node, prefix) \<Rightarrow> size node
        | Inr (L, files, prefix, items) \<Rightarrow> size_list (size_prod (\<lambda>n. 0) size) files)")
     auto

section \<open>Change notifications (\<open>handleFileChange\<close>)\<close>

record change_payload =
  event :: string
  path :: string
  relativePath :: string
  content :: "string option"

datatype message =
    FileChange change_payload
  | FileTree "tree_item list"

text \<open>
  \<open>readFileIfExists\<close>: \<open>fs.readFileSync\<close> is a parameter that yields \<open>None\<close> where it
  throws, and the \<open>catch\<close> turns that into \<open>null\<close>.
\<close>

definition readFileIfExists :: "(string \<Rightarrow> string option) \<Rightarrow> string \<Rightarrow> string option" where
  "readFileIfExists readFileSync filePath =
     (case readFileSync filePath of Some text \<Rightarrow> Some text | None \<Rightarrow> None)"

text \<open>
  \<open>handleFileChange\<close> returns the messages handed to \<open>io.emit\<close>, in order. \<open>watchTree\<close>
  is what lies on disk at \<open>watchDir\<close>.
\<close>

definition handleFileChange ::
  "node_lib \<Rightarrow> (string \<Rightarrow> string option) \<Rightarrow> fs_node \<Rightarrow> string \<Rightarrow> string \<Rightarrow> string \<Rightarrow> message list"
where
  "handleFileChange L readFileSync watchTree watchDir ev filePath =
     [FileChange
        \<lparr> event = ev,
          path = filePath,
          relativePath = path_relative L watchDir filePath,
          content = (if ev \<noteq> ''unlink'' then readFileIfExists readFileSync filePath else None) \<rparr>,
      FileTree (getFileTree L watchTree [])]"

text \<open>\<open>path.isAbsolute\<close> on POSIX.\<close>

definition isAbsolute :: "string \<Rightarrow> bool" where
  "isAbsolute p = startsWith p ''/''"

section \<open>Serving a file (\<open>GET /api/file/*\<close>)\<close>

datatype file_response =
    FileError nat string
  | FileContent string string string string

text \<open>
  \<open>FileError status error\<close> is \<open>res.status(status).json({error})\<close>; \<open>FileContent content
  extension filename path\<close> is the successful reply. The reply is returned together
  with the calls the handler made to \<open>fs\<close>, in order.
\<close>

datatype fs_call = ExistsSync string | ReadFileSync string

definition allowedExtensions :: "string list" where
  "allowedExtensions =
     [''.html'', ''.jsx'', ''.js'', ''.py'', ''.css'', ''.json'', ''.md'', ''.svg'', ''.txt'',
      ''.xml'', ''.yaml'', ''.yml'']"

definition hiddenDenied :: file_response where
  "hiddenDenied = FileError 403 ''Access to hidden files denied''"

definition apiFile ::
  "node_lib \<Rightarrow> (string \<Rightarrow> bool) \<Rightarrow> (string \<Rightarrow> string option) \<Rightarrow> string \<Rightarrow> string
     \<Rightarrow> file_response \<times> fs_call list"
where
  "apiFile L existsSync readFileSync watchDir requestedPath =
     (let filename = basename requestedPath
      in if startsWith filename ''.'' \<and> \<not> endsWith filename ''.html''
         then (hiddenDenied, [])
         else
           (let ext = toLowerCase (extname filename)
            in if ext \<noteq> [] \<and> ext \<notin> set allowedExtensions
               then (FileError 403 ''File type not supported for security reasons'', [])
               else
                 (let filePath = path_join L [watchDir, requestedPath]
                  in if \<not> existsSync filePath
                     then (FileError 404 ''File not found'', [ExistsSync filePath])
                     else
                       (case readFileSync filePath of
                          Some text \<Rightarrow>
                            (FileContent text ext filename requestedPath,
                             [ExistsSync filePath, ReadFileSync filePath])
                        | None \<Rightarrow>
                            (FileError 500 ''Unable to read file'',
                             [ExistsSync filePath, ReadFileSync filePath])))))"

section \<open>Running Python (\<open>POST /api/execute/python\<close>)\<close>

subsection \<open>Requests, replies and the state of the server\<close>

text \<open>
  A value of the JSON request body. \<open>JSNumber\<close> carries an integer and \<open>JSObject\<close>
  stands for every object and array: the handler only asks whether the value is falsy
  and whether it is a string.
\<close>

datatype js_value =
    JSUndefined
  | JSNull
  | JSBoolean bool
  | JSNumber int
  | JSString string
  | JSObject

fun truthy :: "js_value \<Rightarrow> bool" where
  "truthy JSUndefined = False"
| "truthy JSNull = False"
| "truthy (JSBoolean b) = b"
| "truthy (JSNumber n) = (n \<noteq> 0)"
| "truthy (JSString t) = (t \<noteq> [])"
| "truthy JSObject = True"

fun typeof :: "js_value \<Rightarrow> string" where
  "typeof JSUndefined = ''undefined''"
| "typeof JSNull = ''object''"
| "typeof (JSBoolean b) = ''boolean''"
| "typeof (JSNumber n) = ''number''"
| "typeof (JSString t) = ''string''"
| "typeof JSObject = ''object''"

fun text_of :: "js_value \<Rightarrow> string" where
  "text_of (JSString t) = t"
| "text_of v = []"

text \<open>
  The request: \<open>req.ip\<close>, \<open>req.connection.remoteAddress\<close> (\<open>None\<close> for \<open>undefined\<close>) and the
  two fields of the body; \<open>filename\<close>, when the body has one, is a string.
\<close>

record request =
  ip :: "string option"
  remoteAddress :: "string option"
  code :: js_value
  filename :: "string option"

definition clientIP :: "request \<Rightarrow> string" where
  "clientIP req =
     (case ip req of
        Some a \<Rightarrow> if a \<noteq> [] then a
                  else (case remoteAddress req of
                          Some b \<Rightarrow> if b \<noteq> [] then b else ''unknown''
                        | None \<Rightarrow> ''unknown'')
      | None \<Rightarrow> (case remoteAddress req of
                   Some b \<Rightarrow> if b \<noteq> [] then b else ''unknown''
                 | None \<Rightarrow> ''unknown''))"

text \<open>
  What the surroundings decide for one request: the two readings of \<open>Date.now()\<close> (for
  the rate limit and for the name of the temp file) and whether \<open>fs.mkdirSync\<close> and
  \<open>fs.writeFileSync\<close> succeed.
\<close>

record exec_env =
  now :: int
  stamp :: int
  mkdirOk :: bool
  writeOk :: bool

text \<open>
  The state: the table \<open>pythonExecutionCount\<close>, the directories and files on disk, the
  paths the system refuses to remove, the scripts handed to \<open>spawn('python3', ...)\<close>
  (each with \<open>timeout: 30000\<close> and \<open>killSignal: 'SIGKILL'\<close>) and the lines written by
  \<open>console.warn\<close>.
\<close>

record sandbox =
  pythonExecutionCount :: "string \<Rightarrow> int list option"
  disk_dirs :: "string set"
  disk_files :: "string \<Rightarrow> string option"
  locked :: "string set"
  spawned :: "string list"
  warnings :: "string list"

datatype response =
    Rejected nat string
  | Completed bool string string "int option"
  | Failed nat string string

text \<open>
  \<open>Rejected status error\<close> is \<open>res.status(status).json({error, success: false})\<close>;
  \<open>Completed success output error exitCode\<close> is \<open>res.json({success, output, error,
  exitCode})\<close>, with \<open>None\<close> for the \<open>null\<close> exit code of a child killed by a signal;
  \<open>Failed status error output\<close> is \<open>res.status(status).json({success: false, error,
  output, exitCode: -1})\<close>.
\<close>

definition tooManyExecutions :: response where
  "tooManyExecutions =
     Rejected 429 ''Too many Python executions. Please wait a minute before trying again.''"

definition invalidCode :: response where
  "invalidCode = Rejected 400 ''Invalid Python code provided''"

definition codeTooLarge :: response where
  "codeTooLarge = Rejected 400 ''Python code too large (max 50KB)''"

definition tempFileFailed :: response where
  "tempFileFailed = Rejected 500 ''Failed to create temp file''"

text \<open>
  How the synchronous part of the handler ends: with a reply, with the child running on
  a temp file, or with the exception of \<open>fs.mkdirSync\<close> leaving the handler.
\<close>

datatype outcome =
    Respond response
  | Running string
  | Thrown


definition window :: "sandbox \<Rightarrow> string \<Rightarrow> int list" where
  "window s a = (case pythonExecutionCount s a of Some executions \<Rightarrow> executions | None \<Rightarrow> [])"

subsection \<open>The handler, up to the spawn\<close>

definition executePython ::
  "node_lib \<Rightarrow> string \<Rightarrow> exec_env \<Rightarrow> request \<Rightarrow> sandbox \<Rightarrow> outcome \<times> sandbox"
where
  "executePython L dirname e req s =
     (let executions = window s (clientIP req);
          recentExecutions = filter (\<lambda>time. now e - time < 60000) executions
      in if length recentExecutions \<ge> 5 then (Respond tooManyExecutions, s)
         else
           (let s1 = s\<lparr>pythonExecutionCount :=
                        (pythonExecutionCount s)(clientIP req \<mapsto> recentExecutions @ [now e])\<rparr>
            in if \<not> truthy (code req) \<or> typeof (code req) \<noteq> ''string''
               then (Respond invalidCode, s1)
               else if length (text_of (code req)) > 50000 then (Respond codeTooLarge, s1)
               else
                 (let tempFile =
                        path_join L
                          [dirname, ''temp'',
                           (case filename req of
                              Some name \<Rightarrow> if name \<noteq> [] then name else ''temp''
                            | None \<Rightarrow> ''temp'')
                           @ ''_'' @ numberToString L (stamp e) @ ''.py''];
                      tempDir = path_dirname L tempFile
                  in if tempDir \<notin> disk_dirs s1 \<and> \<not> mkdirOk e then (Thrown, s1)
                     else
                       (let s2 = s1\<lparr>disk_dirs := insert tempDir (disk_dirs s1)\<rparr>
                        in if \<not> writeOk e then (Respond tempFileFailed, s2)
                           else
                             (Running tempFile,
                              s2\<lparr>disk_files := (disk_files s2)(tempFile \<mapsto> text_of (code req)),
                                 spawned := spawned s2 @ [tempFile]\<rparr>)))))"


subsection \<open>The handlers of the child's events\<close>

text \<open>
  The events of a child process: a chunk on \<open>stdout\<close> or \<open>stderr\<close>, \<open>close\<close> with the exit
  code (\<open>None\<close> for \<open>null\<close>) and \<open>error\<close> with \<open>err.code\<close> and \<open>err.message\<close>.
\<close>

datatype child_event =
    StdoutData string
  | StderrData string
  | Close "int option"
  | Error "string option" string

text \<open>
  One execution: the temp file, the closure variables \<open>output\<close> and \<open>error\<close> (\<open>output_text\<close>, \<open>error_text\<close>), and the
  replies handed to \<open>res\<close> so far.
\<close>

record execution =
  script :: string
  output_text :: string
  error_text :: string
  replies :: "response list"

definition start :: "string \<Rightarrow> execution" where
  "start tempFile = \<lparr> script = tempFile, output_text = [], error_text = [], replies = [] \<rparr>"

text \<open>
  \<open>fs.unlinkSync\<close> throws (\<open>None\<close>) when the file is not there or the system refuses to
  remove it. \<open>cleanup\<close> is the \<open>try { fs.unlinkSync(tempFile) } catch { console.warn(...) }\<close>
  of both handlers.
\<close>

definition unlinkSync :: "string \<Rightarrow> sandbox \<Rightarrow> sandbox option" where
  "unlinkSync p s =
     (if disk_files s p \<noteq> None \<and> p \<notin> locked s
      then Some (s\<lparr>disk_files := (disk_files s)(p := None)\<rparr>)
      else None)"

definition cleanup :: "string \<Rightarrow> string \<Rightarrow> sandbox \<Rightarrow> sandbox" where
  "cleanup warning p s =
     (case unlinkSync p s of
        Some s1 \<Rightarrow> s1
      | None \<Rightarrow> s\<lparr>warnings := warnings s @ [warning @ '' '' @ p]\<rparr>)"

fun on_event :: "child_event \<Rightarrow> execution \<times> sandbox \<Rightarrow> execution \<times> sandbox" where
  "on_event (StdoutData d) (x, s) = (x\<lparr>output_text := output_text x @ d\<rparr>, s)"
| "on_event (StderrData d) (x, s) = (x\<lparr>error_text := error_text x @ d\<rparr>, s)"
| "on_event (Close exitCode) (x, s) =
     (x\<lparr>replies := replies x @ [Completed (exitCode = Some 0) (output_text x) (error_text x) exitCode]\<rparr>,
      cleanup ''Failed to clean up temp file:'' (script x) s)"
| "on_event (Error errCode errMessage) (x, s) =
     (x\<lparr>replies := replies x @
         [if errCode = Some ''ETIMEDOUT''
          then Failed 408 ''Python script execution timed out (30 second limit)'' (output_text x)
          else Failed 500 (''Failed to execute Python script: '' @ errMessage) (output_text x)]\<rparr>,
      cleanup ''Failed to clean up temp file after error:'' (script x) s)"

definition run_child :: "child_event list \<Rightarrow> execution \<times> sandbox \<Rightarrow> execution \<times> sandbox" where
  "run_child events xs = fold on_event events xs"

fun terminal :: "child_event \<Rightarrow> bool" where
  "terminal (Close exitCode) = True"
| "terminal (Error errCode errMessage) = True"
| "terminal chunk = False"

text \<open>
  The states the server can be in: it starts with an empty table, whatever is on disk,
  and then handles requests and events of children in any order.
\<close>

inductive reachable :: "node_lib \<Rightarrow> string \<Rightarrow> sandbox \<Rightarrow> bool" for L :: node_lib and dirname :: string
where
  started: "pythonExecutionCount s = Map.empty \<Longrightarrow> reachable L dirname s"
| handled: "reachable L dirname s \<Longrightarrow> reachable L dirname (snd (executePython L dirname e req s))"
| notified: "reachable L dirname s \<Longrightarrow> reachable L dirname (snd (on_event ev (x, s)))"

section \<open>The vocabulary of the properties\<close>

subsection \<open>Order of the tree\<close>

text \<open>
  A comparator orders consistently when any two elements are comparable and the order
  is transitive; collation by \<open>localeCompare\<close> is of this kind.
\<close>

definition consistent :: "('a \<Rightarrow> 'a \<Rightarrow> int) \<Rightarrow> bool" where
  "consistent cmp =
     ((\<forall>a b. cmp a b \<le> 0 \<or> cmp b a \<le> 0) \<and>
      (\<forall>a b c. cmp a b \<le> 0 \<longrightarrow> cmp b c \<le> 0 \<longrightarrow> cmp a c \<le> 0))"

text \<open>
  \<open>in_order L a b\<close>: \<open>a\<close> may stand before \<open>b\<close> among the children of a node: no file
  before a directory, and two items of one kind by name. \<open>ordered_tree\<close> asks it of a
  list of items and, level by level, of the children of every directory in it.
\<close>

definition in_order :: "node_lib \<Rightarrow> tree_item \<Rightarrow> tree_item \<Rightarrow> bool" where
  "in_order L a b =
     ((item_kind b = TypeDirectory \<longrightarrow> item_kind a = TypeDirectory) \<and>
      (item_kind a = item_kind b \<longrightarrow> localeCompare L (item_name a) (item_name b) \<le> 0))"

fun ordered_item :: "node_lib \<Rightarrow> tree_item \<Rightarrow> bool" where
  "ordered_item L (DirectoryItem n p ch) =
     (sorted_wrt (in_order L) ch \<and> list_all (ordered_item L) ch)"
| "ordered_item L (FileItem n p e sz) = True"

definition ordered_tree :: "node_lib \<Rightarrow> tree_item list \<Rightarrow> bool" where
  "ordered_tree L items = (sorted_wrt (in_order L) items \<and> list_all (ordered_item L) items)"

subsection \<open>Entries left out of the tree\<close>

text \<open>
  \<open>excluded\<close> joins the two conditions under which the loop of \<open>getFileTree\<close> skips a
  name. \<open>names_of\<close> lists the names in an item and below it, \<open>all_names\<close> those of a
  whole tree; a tree is \<open>clean\<close> when none of them is excluded.
\<close>

definition excluded :: "string \<Rightarrow> bool" where
  "excluded name =
     ((startsWith name ''.'' \<and> \<not> endsWith name ''.html'') \<or> name = ''node_modules'')"

fun names_of :: "tree_item \<Rightarrow> string list" where
  "names_of (DirectoryItem n p ch) = n # concat (map names_of ch)"
| "names_of (FileItem n p e sz) = [n]"

definition all_names :: "tree_item list \<Rightarrow> string list" where
  "all_names items = concat (map names_of items)"

definition clean :: "tree_item list \<Rightarrow> bool" where
  "clean items = (\<forall>n \<in> set (all_names items). \<not> excluded n)"

subsection \<open>Size in bytes\<close>

text \<open>
  The size of a text in bytes, as \<open>fs.writeFileSync\<close> stores it (UTF-8): one byte for a
  code unit below 128, two for the others the model covers.
\<close>

definition byteLength :: "string \<Rightarrow> nat" where
  "byteLength t = sum_list (map (\<lambda>c. if (of_char c :: nat) < 128 then 1 else 2) t)"

definition isAscii :: "string \<Rightarrow> bool" where
  "isAscii t = list_all (\<lambda>c. (of_char c :: nat) < 128) t"

subsection \<open>A library to evaluate examples with\<close>

text \<open>
  \<open>plain_lib\<close> instantiates the library parameters for the examples: paths are joined
  with \<open>/\<close> (which is what \<open>path.join\<close> returns for normalized parts without \<open>.\<close> and
  \<open>..\<close> segments), a path below the root is made relative by cutting the root off,
  names are compared code unit by code unit, and numbers are written in decimal.
\<close>

fun compareCodes :: "nat list \<Rightarrow> nat list \<Rightarrow> int" where
  "compareCodes [] [] = 0"
| "compareCodes [] (y # ys) = - 1"
| "compareCodes (x # xs) [] = 1"
| "compareCodes (x # xs) (y # ys) =
     (if x < y then - 1 else if y < x then 1 else compareCodes xs ys)"

definition compareUnits :: "string \<Rightarrow> string \<Rightarrow> int" where
  "compareUnits a b = compareCodes (map of_char a) (map of_char b)"

fun decimal :: "nat \<Rightarrow> string" where
  "decimal n =
     (if n < 10 then [''0123456789'' ! n]
      else decimal (n div 10) @ [''0123456789'' ! (n mod 10)])"

declare decimal.simps [simp del]

definition joinPlain :: "string list \<Rightarrow> string" where
  "joinPlain parts =
     (case filter (\<lambda>p. p \<noteq> []) parts of
        [] \<Rightarrow> ''.''
      | q # qs \<Rightarrow> foldl (\<lambda>a b. a @ ''/'' @ b) q qs)"

definition dirnamePlain :: "string \<Rightarrow> string" where
  "dirnamePlain p = rev (drop 1 (dropWhile (\<lambda>c. c \<noteq> CHR ''/'') (rev p)))"

definition relativePlain :: "string \<Rightarrow> string \<Rightarrow> string" where
  "relativePlain from to =
     (if startsWith to (from @ ''/'') then drop (Suc (length from)) to else to)"

definition plain_lib :: node_lib where
  "plain_lib =
     \<lparr> path_join = joinPlain,
       path_dirname = dirnamePlain,
       path_relative = relativePlain,
       localeCompare = compareUnits,
       numberToString =
         (\<lambda>n. if n < 0 then CHR ''-'' # decimal (nat (- n)) else decimal (nat n)) \<rparr>"

text \<open>
  \<open>compareCollated\<close> orders names the way a collation orders letters: first without
  regard to the case of the ASCII letters, and among names that are equal then, the one
  with the lower-case letter first. It stands in for \<open>localeCompare\<close> where an example
  turns on two names that differ in a letter, such as \<open>a.txt\<close> and \<open>B.txt\<close>, which
  \<open>localeCompare\<close> puts in this order and the order of code units in the other.
\<close>

definition foldCase :: "nat \<Rightarrow> nat" where
  "foldCase n = (if 65 \<le> n \<and> n \<le> 90 then n + 32 else n)"

definition compareCollated :: "string \<Rightarrow> string \<Rightarrow> int" where
  "compareCollated a b =
     (let primary =
            compareCodes (map (\<lambda>c. foldCase (of_char c)) a) (map (\<lambda>c. foldCase (of_char c)) b)
      in if primary \<noteq> 0 then primary
         else compareCodes (map of_char b) (map of_char a))"

definition collating_lib :: node_lib where
  "collating_lib = plain_lib\<lparr>localeCompare := compareCollated\<rparr>"

subsection \<open>The rate window\<close>

text \<open>
  \<open>pruned T executions\<close> is the window as the handler prunes it at time \<open>T\<close>; \<open>fresh\<close> is
  a server that has just started on an empty disk.
\<close>

definition pruned :: "int \<Rightarrow> int list \<Rightarrow> int list" where
  "pruned T executions = filter (\<lambda>time. T - time < 60000) executions"

definition fresh :: sandbox where
  "fresh =
     \<lparr> pythonExecutionCount = Map.empty,
       disk_dirs = {},
       disk_files = Map.empty,
       locked = {},
       spawned = [],
       warnings = [] \<rparr>"

subsection \<open>Example requests\<close>

text \<open>
  \<open>at_time t\<close>: the clock reads \<open>t\<close> and the disk works; \<open>script_from a\<close>: a one-line
  script posted from address \<open>a\<close>.
\<close>

definition at_time :: "int \<Rightarrow> exec_env" where
  "at_time t = \<lparr> now = t, stamp = t, mkdirOk = True, writeOk = True \<rparr>"

definition script_from :: "string \<Rightarrow> request" where
  "script_from a =
     \<lparr> ip = Some a, remoteAddress = None, code = JSString ''print(1)'', filename = None \<rparr>"

section \<open>The tree is sorted\<close>

lemma set_insert_by: "set (insert_by cmp x xs) = insert x (set xs)"
  by (induction xs) auto

lemma set_sort_by: "set (sort_by cmp xs) = set xs"
  by (induction xs) (auto simp: sort_by_def set_insert_by)

lemma sorted_insert_by:
  assumes "consistent cmp" and "sorted_wrt (\<lambda>a b. cmp a b \<le> 0) xs"
  shows "sorted_wrt (\<lambda>a b. cmp a b \<le> 0) (insert_by cmp x xs)"
  using assms(2)
proof (induction xs)
  case Nil
  then show ?case by simp
next
  case (Cons y ys)
  have total: "\<And>a b. cmp a b \<le> 0 \<or> cmp b a \<le> 0"
    and trans: "\<And>a b c. cmp a b \<le> 0 \<Longrightarrow> cmp b c \<le> 0 \<Longrightarrow> cmp a c \<le> 0"
    using assms(1) unfolding consistent_def by blast+
  show ?case
  proof (cases "cmp x y \<le> 0")
    case True
    with Cons.prems trans show ?thesis by auto
  next
    case False
    with total have "cmp y x \<le> 0" by blast
    with False Cons show ?thesis by (auto simp: set_insert_by)
  qed
qed

lemma sorted_sort_by:
  "consistent cmp \<Longrightarrow> sorted_wrt (\<lambda>a b. cmp a b \<le> 0) (sort_by cmp xs)"
  by (induction xs) (auto simp: sort_by_def sorted_insert_by)

lemma consistent_compareItems:
  assumes "consistent (localeCompare L)"
  shows "consistent (compareItems L)"
proof -
  have total: "\<And>x y. localeCompare L x y \<le> 0 \<or> localeCompare L y x \<le> 0"
    and trans: "\<And>x y z. localeCompare L x y \<le> 0 \<Longrightarrow> localeCompare L y z \<le> 0
                  \<Longrightarrow> localeCompare L x z \<le> 0"
    using assms unfolding consistent_def by blast+
  have "compareItems L a b \<le> 0 \<or> compareItems L b a \<le> 0" for a b
    using total[of "item_name a" "item_name b"]
    by (cases "item_kind a"; cases "item_kind b") (auto simp: compareItems_def)
  moreover have "compareItems L a c \<le> 0"
    if "compareItems L a b \<le> 0" "compareItems L b c \<le> 0" for a b c
    using that trans[of "item_name a" "item_name b" "item_name c"]
    by (cases "item_kind a"; cases "item_kind b"; cases "item_kind c")
       (auto simp: compareItems_def)
  ultimately show ?thesis unfolding consistent_def by blast
qed

lemma compareItems_in_order:
  "compareItems L a b \<le> 0 \<longleftrightarrow> in_order L a b"
  unfolding compareItems_def in_order_def
  by (cases "item_kind a"; cases "item_kind b") auto

lemma ordered_tree_sort_by:
  assumes "consistent (localeCompare L)" and "list_all (ordered_item L) xs"
  shows "ordered_tree L (sort_by (compareItems L) xs)"
proof -
  have "sorted_wrt (\<lambda>a b. compareItems L a b \<le> 0) (sort_by (compareItems L) xs)"
    using assms(1) by (intro sorted_sort_by consistent_compareItems)
  then have "sorted_wrt (in_order L) (sort_by (compareItems L) xs)"
    by (simp add: compareItems_in_order)
  moreover have "list_all (ordered_item L) (sort_by (compareItems L) xs)"
    using assms(2) by (simp add: list_all_iff set_sort_by)
  ultimately show ?thesis by (simp add: ordered_tree_def)
qed

lemma ordered_getFileTree_scan:
  "consistent (localeCompare L) \<Longrightarrow> ordered_tree L (getFileTree L node prefix)"
  "consistent (localeCompare L) \<Longrightarrow> list_all (ordered_item L) items
     \<Longrightarrow> list_all (ordered_item L) (scan L files prefix items)"
proof (induction L node prefix and L files prefix items rule: getFileTree_scan.induct)
  case (4 L f node rest prefix items)
  show ?case
  proof (cases "(startsWith f ''.'' \<and> \<not> endsWith f ''.html'') \<or> f = ''node_modules''")
    case True
    with 4 show ?thesis by auto
  next
    case False
    with 4 show ?thesis
      by (cases node) (auto simp: ordered_tree_def Let_def)
  qed
qed (simp_all add: ordered_tree_sort_by)

lemma compareCodes_total: "compareCodes a b \<le> 0 \<or> compareCodes b a \<le> 0"
  by (induction a b rule: compareCodes.induct) auto

lemma compareCodes_Cons_le:
  "compareCodes (x # xs) (y # ys) \<le> 0 \<longleftrightarrow> x < y \<or> (x = y \<and> compareCodes xs ys \<le> 0)"
  by simp

lemma compareCodes_trans:
  "compareCodes a b \<le> 0 \<Longrightarrow> compareCodes b c \<le> 0 \<Longrightarrow> compareCodes a c \<le> 0"
proof (induction a b arbitrary: c rule: compareCodes.induct)
  case 1
  then show ?case by simp
next
  case (2 y ys)
  then show ?case by (cases c) simp_all
next
  case (3 x xs)
  then show ?case by simp
next
  case (4 x xs y ys)
  show ?case
  proof (cases c)
    case Nil
    with "4.prems" show ?thesis by simp
  next
    case (Cons z zs)
    from "4.prems"(1) have a: "x < y \<or> (x = y \<and> compareCodes xs ys \<le> 0)"
      by (simp only: compareCodes_Cons_le)
    from "4.prems"(2) have b: "y < z \<or> (y = z \<and> compareCodes ys zs \<le> 0)"
      unfolding Cons by (simp only: compareCodes_Cons_le)
    show ?thesis
    proof (cases "x < z")
      case True
      then show ?thesis unfolding Cons by (simp only: compareCodes_Cons_le) simp
    next
      case False
      with a b have eq: "x = y" "y = z" and le: "compareCodes xs ys \<le> 0" "compareCodes ys zs \<le> 0"
        by auto
      from eq have "\<not> x < y" "\<not> y < x" by simp_all
      with le "4.IH"[of zs] have "compareCodes xs zs \<le> 0" by blast
      with eq show ?thesis unfolding Cons by (simp only: compareCodes_Cons_le) simp
    qed
  qed
qed

lemma consistent_plain_lib: "consistent (localeCompare plain_lib)"
proof -
  have eq: "localeCompare plain_lib = compareUnits" by (simp add: plain_lib_def)
  show ?thesis
    unfolding consistent_def eq compareUnits_def
    using compareCodes_total compareCodes_trans by blast
qed

text \<open>
  C8, as the code has it. For every directory tree, at every level of the output of
  \<open>getFileTree\<close> all directories come before all files, and the items of one kind are
  in the order \<open>localeCompare\<close> gives their names: the collation of the locale, not the
  lexicographic order of the code units. \<open>localeCompare\<close> is a parameter that orders
  consistently.
\<close>

theorem getFileTree_ordered:
  assumes "consistent (localeCompare L)"
  shows "ordered_tree L (getFileTree L node prefix)"
proof (cases node)
  case (Directory files)
  have "list_all (ordered_item L) (scan L files prefix [])"
    using assms by (intro ordered_getFileTree_scan(2)) simp_all
  with assms show ?thesis unfolding Directory by (simp add: ordered_tree_sort_by)
qed (simp_all add: assms ordered_tree_sort_by)

theorem getFileTree_ordered_witness:
  "ordered_tree plain_lib
     (getFileTree plain_lib
        (Directory
           [(''a.txt'', File 4), (''b.txt'', File 3), (''docs'', Directory []),
            (''src'', Directory [(''a.js'', File 2), (''lib'', Directory []), (''z.js'', File 1)])])
        []) \<and>
   getFileTree plain_lib
     (Directory
        [(''a.txt'', File 4), (''b.txt'', File 3), (''docs'', Directory []),
         (''src'', Directory [(''a.js'', File 2), (''lib'', Directory []), (''z.js'', File 1)])])
     [] =
     [DirectoryItem ''docs'' ''docs'' [],
      DirectoryItem ''src'' ''src''
        [DirectoryItem ''lib'' ''src/lib'' [], FileItem ''a.js'' ''src/a.js'' ''.js'' 2,
         FileItem ''z.js'' ''src/z.js'' ''.js'' 1],
      FileItem ''a.txt'' ''a.txt'' ''.txt'' 4, FileItem ''b.txt'' ''b.txt'' ''.txt'' 3]"
proof
  show "ordered_tree plain_lib
     (getFileTree plain_lib
        (Directory
           [(''a.txt'', File 4), (''b.txt'', File 3), (''docs'', Directory []),
            (''src'', Directory [(''a.js'', File 2), (''lib'', Directory []), (''z.js'', File 1)])])
        [])"
    using consistent_plain_lib by (rule getFileTree_ordered)
qed (simp add: plain_lib_def startsWith_def endsWith_def sort_by_def compareItems_def
       compareUnits_def joinPlain_def toLowerCase_def toLowerCaseChar_def extname_def
       basename_def Let_def)

text \<open>
  The claim as stated fails: the files \<open>B.txt\<close> and \<open>a.txt\<close> come out as \<open>a.txt\<close>,
  \<open>B.txt\<close>, while in the lexicographic order of their code units \<open>B.txt\<close> is first.
\<close>

theorem getFileTree_ordered_counterexample:
  "getFileTree collating_lib (Directory [(''B.txt'', File 1), (''a.txt'', File 2)]) [] =
     [FileItem ''a.txt'' ''a.txt'' ''.txt'' 2, FileItem ''B.txt'' ''B.txt'' ''.txt'' 1] \<and>
   compareUnits ''a.txt'' ''B.txt'' = 1"
  by (simp add: collating_lib_def plain_lib_def compareCollated_def foldCase_def startsWith_def
        endsWith_def sort_by_def compareItems_def compareUnits_def joinPlain_def toLowerCase_def
        toLowerCaseChar_def extname_def basename_def Let_def)

section \<open>Which entries the tree holds\<close>

lemma clean_Nil: "clean []"
  by (simp add: clean_def all_names_def)

lemma clean_snoc_file: "clean (items @ [FileItem f p e sz]) = (clean items \<and> \<not> excluded f)"
  by (auto simp: clean_def all_names_def)

lemma clean_snoc_dir:
  "clean (items @ [DirectoryItem f p ch]) = (clean items \<and> \<not> excluded f \<and> clean ch)"
  by (auto simp: clean_def all_names_def)

lemma clean_sort_by: "clean (sort_by cmp items) = clean items"
  by (simp add: clean_def all_names_def set_sort_by)

lemma not_excluded:
  "\<not> (startsWith f ''.'' \<and> \<not> endsWith f ''.html'') \<Longrightarrow> f \<noteq> ''node_modules'' \<Longrightarrow> \<not> excluded f"
  by (simp add: excluded_def)

lemma clean_getFileTree_scan:
  "clean (getFileTree L node prefix)"
  "clean items \<Longrightarrow> clean (scan L files prefix items)"
proof (induction L node prefix and L files prefix items rule: getFileTree_scan.induct)
  case (4 L f node rest prefix items)
  show ?case
  proof (cases "(startsWith f ''.'' \<and> \<not> endsWith f ''.html'') \<or> f = ''node_modules''")
    case True
    with 4 show ?thesis by auto
  next
    case False
    then have "\<not> excluded f" by (simp add: excluded_def)
    with False 4 show ?thesis
      by (cases node) (auto simp: Let_def clean_snoc_file clean_snoc_dir clean_sort_by clean_Nil)
  qed
qed (simp_all add: clean_sort_by clean_Nil)

text \<open>
  No name in a tree, at any level, is excluded: neither \<open>.env\<close> nor \<open>node_modules\<close>
  is ever in it, while \<open>.notes.html\<close> passes the filter.
\<close>

lemma excluded_nowhere:
  "\<forall>n \<in> set (all_names (getFileTree L node prefix)). \<not> excluded n"
  using clean_getFileTree_scan(1)[of L node prefix] by (simp add: clean_def)

lemma excluded_names:
  "excluded ''.env''" "excluded ''node_modules''" "\<not> excluded ''.notes.html''"
  by (simp_all add: excluded_def startsWith_def endsWith_def)


text \<open>
  C9. The name filter is as the claim has it: \<open>.env\<close> and \<open>node_modules\<close> are
  excluded, at every level, and \<open>.notes.html\<close> passes the filter. But an entry that
  passes the filter is not always present: here the listing holds a dangling link
  \<open>-x\<close> before \<open>.notes.html\<close>; \<open>statSync\<close> throws for the link, the loop ends, and
  \<open>.notes.html\<close> is not in the tree, which is empty.
\<close>

theorem getFileTree_notes_html_lost:
  "getFileTree plain_lib (Directory [(''-x'', Unstatable), (''.notes.html'', File 4)]) [] = [] \<and>
   \<not> excluded ''.notes.html''"
  by (simp add: startsWith_def endsWith_def sort_by_def excluded_def)

text \<open>
  C7. One entry whose \<open>statSync\<close> throws, listed first, takes its readable sibling with
  it and leaves the tree empty: the \<open>catch\<close> that logs the error and returns the items
  stands around the whole loop. A subdirectory whose listing cannot be read, in the same
  place, costs no sibling: it stays in the tree without children.
\<close>

theorem getFileTree_stat_failure:
  "getFileTree plain_lib (Directory [(''broken'', Unstatable), (''readme.md'', File 120)]) [] = [] \<and>
   getFileTree plain_lib (Directory [(''lib'', UnreadableDirectory), (''readme.md'', File 120)]) [] =
     [DirectoryItem ''lib'' ''lib'' [], FileItem ''readme.md'' ''readme.md'' ''.md'' 120]"
  by (simp add: plain_lib_def startsWith_def endsWith_def sort_by_def compareItems_def
        compareUnits_def joinPlain_def toLowerCase_def toLowerCaseChar_def extname_def
        basename_def Let_def)

section \<open>What a change notification carries\<close>

text \<open>
  C1. The claim is that no field of the change payload holds an absolute path of the
  host. The payload has a field \<open>path\<close> that is the path the watcher reported, as it
  is: for a watched root given as an absolute path (the default is \<open>process.cwd()\<close>)
  that is the absolute path of the file, here \<open>/home/dev/site/index.html\<close>. Only
  \<open>relativePath\<close> is made relative to the root. The handler of \<open>GET /api/file/*\<close>
  answers with the requested path under the comment "Don't expose full system path".
\<close>

theorem handleFileChange_payload:
  "handleFileChange L readFileSync watchTree ''/home/dev/site'' ''change''
       ''/home/dev/site/index.html'' =
     [FileChange
        \<lparr> event = ''change'',
          path = ''/home/dev/site/index.html'',
          relativePath = path_relative L ''/home/dev/site'' ''/home/dev/site/index.html'',
          content = readFileIfExists readFileSync ''/home/dev/site/index.html'' \<rparr>,
      FileTree (getFileTree L watchTree [])] \<and>
   isAbsolute ''/home/dev/site/index.html''"
  by (simp add: handleFileChange_def isAbsolute_def startsWith_def)

section \<open>The hidden-file check of \<open>GET /api/file/*\<close>\<close>

lemma basename_final:
  assumes "CHR ''/'' \<notin> set name" and "name \<noteq> []" and "ancestors = [] \<or> last ancestors = CHR ''/''"
  shows "basename (ancestors @ name) = name"
proof -
  have "last name \<in> set name" using assms(2) by (rule last_in_set)
  with assms(1) have "last name \<noteq> CHR ''/''" by metis
  then have ne: "rev name \<noteq> []" and hd: "hd (rev name) \<noteq> CHR ''/''"
    using assms(2) by (simp_all add: hd_rev)
  then have d: "dropWhile (\<lambda>c. c = CHR ''/'') (rev name @ rev ancestors) = rev name @ rev ancestors"
    by (cases "rev name") simp_all
  have t1: "takeWhile (\<lambda>c. c \<noteq> CHR ''/'') (rev name @ rev ancestors) =
              rev name @ takeWhile (\<lambda>c. c \<noteq> CHR ''/'') (rev ancestors)"
    using assms(1) by (intro takeWhile_append2) auto
  have t2: "takeWhile (\<lambda>c. c \<noteq> CHR ''/'') (rev ancestors) = []"
    using assms(3) by (cases "rev ancestors") (auto simp: last_rev[symmetric] hd_rev)
  show ?thesis by (simp add: basename_def d t1 t2)
qed

lemma apiFile_hidden_iff:
  "fst (apiFile L ex rd w p) = hiddenDenied \<longleftrightarrow>
     startsWith (basename p) ''.'' \<and> \<not> endsWith (basename p) ''.html''"
  by (auto simp: apiFile_def Let_def hiddenDenied_def split: option.splits)

text \<open>
  C10. The hidden-file check looks at the final component of the requested path only.
  For a requested path \<open>ancestors @ name\<close>, where \<open>name\<close> is the final component and
  \<open>ancestors\<close> is empty or ends in \<open>/\<close>, the request is answered with 403 "Access to
  hidden files denied" exactly when \<open>name\<close> begins with \<open>.\<close> and does not end in
  \<open>.html\<close>, whatever the ancestors are; it is then answered before any call to \<open>fs\<close>.
  For every requested path the check is the one on \<open>basename\<close>. So \<open>.ssh/config\<close>
  passes the check (and is served), and \<open>config/.env\<close> is refused.
\<close>

theorem hidden_check_final_component:
  assumes "CHR ''/'' \<notin> set name" and "name \<noteq> []"
    and "ancestors = [] \<or> last ancestors = CHR ''/''"
  shows "(fst (apiFile L existsSync readFileSync watchDir (ancestors @ name)) = hiddenDenied \<longleftrightarrow>
            startsWith name ''.'' \<and> \<not> endsWith name ''.html'') \<and>
         (startsWith name ''.'' \<and> \<not> endsWith name ''.html'' \<longrightarrow>
            apiFile L existsSync readFileSync watchDir (ancestors @ name) = (hiddenDenied, [])) \<and>
         (fst (apiFile L existsSync readFileSync watchDir requestedPath) = hiddenDenied \<longleftrightarrow>
            startsWith (basename requestedPath) ''.'' \<and>
            \<not> endsWith (basename requestedPath) ''.html'')"
proof -
  have b: "basename (ancestors @ name) = name" using assms by (rule basename_final)
  have "apiFile L existsSync readFileSync watchDir (ancestors @ name) = (hiddenDenied, [])"
    if "startsWith name ''.'' \<and> \<not> endsWith name ''.html''"
    using that by (simp add: apiFile_def b)
  then show ?thesis
    using apiFile_hidden_iff[of L existsSync readFileSync watchDir "ancestors @ name"]
      apiFile_hidden_iff[of L existsSync readFileSync watchDir requestedPath]
    unfolding b by blast
qed

theorem hidden_check_final_component_witness:
  "apiFile plain_lib (\<lambda>p. p = ''/srv/site/.ssh/config'') (\<lambda>p. Some ''Host example'')
      ''/srv/site'' ''.ssh/config'' =
     (FileContent ''Host example'' [] ''config'' ''.ssh/config'',
      [ExistsSync ''/srv/site/.ssh/config'', ReadFileSync ''/srv/site/.ssh/config'']) \<and>
   fst (apiFile plain_lib (\<lambda>p. p = ''/srv/site/.ssh/config'') (\<lambda>p. Some ''Host example'')
      ''/srv/site'' ''.ssh/config'') \<noteq> hiddenDenied \<and>
   apiFile plain_lib (\<lambda>p. True) (\<lambda>p. Some ''SECRET=1'') ''/srv/site'' ''config/.env'' =
     (hiddenDenied, [])"
  using hidden_check_final_component[of "''config''" "''.ssh/''" plain_lib
      "\<lambda>p. p = ''/srv/site/.ssh/config''" "\<lambda>p. Some ''Host example''" "''/srv/site''"]
    hidden_check_final_component[of "''.env''" "''config/''" plain_lib
      "\<lambda>p. True" "\<lambda>p. Some ''SECRET=1''" "''/srv/site''"]
  by (simp add: startsWith_def endsWith_def)
     (simp add: apiFile_def basename_def extname_def toLowerCase_def startsWith_def endsWith_def
        plain_lib_def joinPlain_def Let_def)

section \<open>The rate limit\<close>

lemma executePython_limited:
  "5 \<le> length (pruned (now e) (window s (clientIP req))) \<Longrightarrow>
     executePython L d e req s = (Respond tooManyExecutions, s)"
  by (simp add: executePython_def pruned_def Let_def)

lemma executePython_not_limited:
  "length (pruned (now e) (window s (clientIP req))) < 5 \<Longrightarrow>
     fst (executePython L d e req s) \<noteq> Respond tooManyExecutions"
  by (simp add: executePython_def pruned_def Let_def tooManyExecutions_def invalidCode_def
        codeTooLarge_def tempFileFailed_def)

lemma executePython_limited_iff:
  "fst (executePython L d e req s) = Respond tooManyExecutions \<longleftrightarrow>
     5 \<le> length (pruned (now e) (window s (clientIP req)))"
  using executePython_limited[of e s req L d] executePython_not_limited[of e s req L d]
  by (cases "5 \<le> length (pruned (now e) (window s (clientIP req)))") auto

lemma executePython_table:
  "length (pruned (now e) (window s (clientIP req))) < 5 \<Longrightarrow>
     pythonExecutionCount (snd (executePython L d e req s)) =
       (pythonExecutionCount s)(clientIP req \<mapsto> pruned (now e) (window s (clientIP req)) @ [now e])"
  by (simp add: executePython_def pruned_def Let_def)

lemma window_after:
  "window (snd (executePython L d e req s)) a =
     (if a = clientIP req \<and> length (pruned (now e) (window s (clientIP req))) < 5
      then pruned (now e) (window s (clientIP req)) @ [now e]
      else window s a)"
proof (cases "length (pruned (now e) (window s (clientIP req))) < 5")
  case True
  then show ?thesis by (simp add: window_def executePython_table)
next
  case False
  then have "executePython L d e req s = (Respond tooManyExecutions, s)"
    by (intro executePython_limited) simp
  with False show ?thesis by simp
qed

lemma on_event_table:
  "pythonExecutionCount (snd (on_event ev (x, s))) = pythonExecutionCount s"
  by (cases ev) (simp_all add: cleanup_def unlinkSync_def)

lemma window_on_event: "window (snd (on_event ev (x, s))) a = window s a"
  by (simp add: window_def on_event_table)

lemma reachable_window: "reachable L d s \<Longrightarrow> length (window s a) \<le> 5"
proof (induction rule: reachable.induct)
  case (started s)
  then show ?case by (simp add: window_def)
next
  case (handled s e req)
  then show ?case by (simp add: window_after)
next
  case (notified s ev x)
  then show ?case by (simp add: window_on_event)
qed

text \<open>
  C2, as the code has it. In every state the server reaches, the window of a requester
  holds at most 5 timestamps, before and after pruning. A request answered with 429
  leaves the state as it was, so it adds no timestamp. Every other request has its
  timestamp appended to the pruned window before the code is validated.
\<close>

theorem rate_window_bounded:
  assumes "reachable L d s"
  shows "length (window s a) \<le> 5 \<and> length (pruned T (window s a)) \<le> 5 \<and>
         (fst (executePython L d e req s) = Respond tooManyExecutions \<longrightarrow>
            snd (executePython L d e req s) = s) \<and>
         (fst (executePython L d e req s) \<noteq> Respond tooManyExecutions \<longrightarrow>
            window (snd (executePython L d e req s)) (clientIP req) =
              pruned (now e) (window s (clientIP req)) @ [now e])"
proof (intro conjI impI)
  show b: "length (window s a) \<le> 5" using assms by (rule reachable_window)
  have "length (pruned T (window s a)) \<le> length (window s a)"
    unfolding pruned_def by (rule length_filter_le)
  with b show "length (pruned T (window s a)) \<le> 5" by simp
next
  assume "fst (executePython L d e req s) = Respond tooManyExecutions"
  then have "5 \<le> length (pruned (now e) (window s (clientIP req)))"
    by (simp only: executePython_limited_iff)
  then show "snd (executePython L d e req s) = s" by (simp add: executePython_limited)
next
  assume "fst (executePython L d e req s) \<noteq> Respond tooManyExecutions"
  then have "length (pruned (now e) (window s (clientIP req))) < 5"
    by (simp add: executePython_limited_iff)
  then show "window (snd (executePython L d e req s)) (clientIP req) =
              pruned (now e) (window s (clientIP req)) @ [now e]"
    by (simp add: window_after)
qed

theorem rate_window_bounded_witness:
  "length (window fresh ''10.0.0.7'') \<le> 5 \<and>
   window (snd (executePython plain_lib ''/srv/quickview''
          \<lparr>now = 1000, stamp = 1000, mkdirOk = True, writeOk = True\<rparr>
          \<lparr>ip = Some ''10.0.0.7'', remoteAddress = None, code = JSString ''print(1)'', filename = None\<rparr>
          fresh)) ''10.0.0.7'' = [1000]"
proof -
  have r: "reachable plain_lib ''/srv/quickview'' fresh"
    by (rule reachable.started) (simp add: fresh_def)
  have w: "window fresh ''10.0.0.7'' = []" by (simp add: window_def fresh_def)
  show ?thesis
    using rate_window_bounded[OF r, of "''10.0.0.7''" 1000
        "\<lparr>now = 1000, stamp = 1000, mkdirOk = True, writeOk = True\<rparr>"
        "\<lparr>ip = Some ''10.0.0.7'', remoteAddress = None, code = JSString ''print(1)'', filename = None\<rparr>"]
    by (simp add: w clientIP_def pruned_def executePython_limited_iff)
qed

text \<open>
  The claim as stated fails: a request without code is rejected as invalid (400), and
  its timestamp is in the requester's window all the same.
\<close>

theorem rate_window_counterexample:
  "fst (executePython plain_lib ''/srv/quickview''
          \<lparr>now = 1000, stamp = 1000, mkdirOk = True, writeOk = True\<rparr>
          \<lparr>ip = Some ''10.0.0.7'', remoteAddress = None, code = JSUndefined, filename = None\<rparr>
          fresh) = Respond invalidCode \<and>
   window (snd (executePython plain_lib ''/srv/quickview''
          \<lparr>now = 1000, stamp = 1000, mkdirOk = True, writeOk = True\<rparr>
          \<lparr>ip = Some ''10.0.0.7'', remoteAddress = None, code = JSUndefined, filename = None\<rparr>
          fresh)) ''10.0.0.7'' = [1000]"
  by (simp add: executePython_def fresh_def window_def clientIP_def Let_def)

subsection \<open>The sixth request\<close>
















section \<open>The size limit\<close>

lemma byteLength_replicate_ascii:
  "(of_char c :: nat) < 128 \<Longrightarrow> byteLength (replicate n c) = n"
  by (induction n) (simp_all add: byteLength_def)

lemma byteLength_append: "byteLength (a @ b) = byteLength a + byteLength b"
  by (simp add: byteLength_def)

lemma byteLength_replicate_latin:
  "\<not> (of_char c :: nat) < 128 \<Longrightarrow> byteLength (replicate n c) = 2 * n"
  by (induction n) (simp_all add: byteLength_def)

lemma tooLarge_when:
  "fst (executePython L d e req s) = Respond codeTooLarge \<longleftrightarrow>
      length (pruned (now e) (window s (clientIP req))) < 5 \<and>
      50000 < length (text_of (code req))"
  by (cases "code req")
     (auto simp: executePython_def pruned_def Let_def tooManyExecutions_def invalidCode_def
        codeTooLarge_def tempFileFailed_def)

lemma length_le_byteLength: "length t \<le> byteLength t"
  by (induction t) (simp_all add: byteLength_def)

lemma byteLength_ascii: "isAscii t \<Longrightarrow> byteLength t = length t"
  by (induction t) (simp_all add: byteLength_def isAscii_def)

lemma isAscii_replicate: "(of_char c :: nat) < 128 \<Longrightarrow> isAscii (replicate n c)"
  by (induction n) (simp_all add: isAscii_def)

lemma tooLarge_untouched:
  "fst (executePython L d e req s) = Respond codeTooLarge \<Longrightarrow>
     disk_dirs (snd (executePython L d e req s)) = disk_dirs s \<and>
     disk_files (snd (executePython L d e req s)) = disk_files s \<and>
     spawned (snd (executePython L d e req s)) = spawned s"
  by (cases "code req")
     (auto simp: executePython_def pruned_def Let_def tooManyExecutions_def invalidCode_def
        codeTooLarge_def tempFileFailed_def split: if_splits)

text \<open>
  C4, with the limit the code has: 50 KB, that is 50000 bytes. A request is answered
  with 400 "Python code too large (max 50KB)" only if it passes the rate limit and its
  code takes more than 50000 bytes; a request that passes the rate limit and whose code
  is ASCII text of more than 50000 bytes is answered so. The answer comes before any
  directory is made, any file written and any child spawned. So an ASCII script of
  50 KiB + 1 byte is rejected as too large.
\<close>

theorem codeTooLarge_bytes:
  "(fst (executePython L d e req s) = Respond codeTooLarge \<longrightarrow>
      length (pruned (now e) (window s (clientIP req))) < 5 \<and>
      50000 < byteLength (text_of (code req))) \<and>
   (length (pruned (now e) (window s (clientIP req))) < 5 \<and> isAscii (text_of (code req)) \<and>
      50000 < byteLength (text_of (code req)) \<longrightarrow>
      fst (executePython L d e req s) = Respond codeTooLarge) \<and>
   (fst (executePython L d e req s) = Respond codeTooLarge \<longrightarrow>
      disk_dirs (snd (executePython L d e req s)) = disk_dirs s \<and>
      disk_files (snd (executePython L d e req s)) = disk_files s \<and>
      spawned (snd (executePython L d e req s)) = spawned s)"
proof -
  have "length (pruned (now e) (window s (clientIP req))) < 5 \<and>
        50000 < byteLength (text_of (code req))"
    if "fst (executePython L d e req s) = Respond codeTooLarge"
  proof -
    from that have "length (pruned (now e) (window s (clientIP req))) < 5"
      and "50000 < length (text_of (code req))"
      by (simp_all add: tooLarge_when)
    moreover have "length (text_of (code req)) \<le> byteLength (text_of (code req))"
      by (rule length_le_byteLength)
    ultimately show ?thesis by simp
  qed
  moreover have "fst (executePython L d e req s) = Respond codeTooLarge"
    if "length (pruned (now e) (window s (clientIP req))) < 5 \<and> isAscii (text_of (code req)) \<and>
        50000 < byteLength (text_of (code req))"
    using that byteLength_ascii[of "text_of (code req)"] by (simp add: tooLarge_when)
  ultimately show ?thesis
    using tooLarge_untouched[of L d e req s] by blast
qed

theorem codeTooLarge_bytes_witness:
  "fst (executePython plain_lib ''/srv/quickview'' (at_time 1000)
          \<lparr>ip = Some ''10.0.0.7'', remoteAddress = None,
            code = JSString (replicate 51201 (CHR ''a'')), filename = None\<rparr>
          fresh) = Respond codeTooLarge \<and>
   spawned (snd (executePython plain_lib ''/srv/quickview'' (at_time 1000)
          \<lparr>ip = Some ''10.0.0.7'', remoteAddress = None,
            code = JSString (replicate 51201 (CHR ''a'')), filename = None\<rparr>
          fresh)) = [] \<and>
   disk_files (snd (executePython plain_lib ''/srv/quickview'' (at_time 1000)
          \<lparr>ip = Some ''10.0.0.7'', remoteAddress = None,
            code = JSString (replicate 51201 (CHR ''a'')), filename = None\<rparr>
          fresh)) = Map.empty"
proof -
  have w: "window fresh ''10.0.0.7'' = []" by (simp add: window_def fresh_def)
  have a: "isAscii (replicate 51201 (CHR ''a''))" by (rule isAscii_replicate) simp
  have b: "byteLength (replicate 51201 (CHR ''a'')) = 51201"
    by (rule byteLength_replicate_ascii) simp
  show ?thesis
    using codeTooLarge_bytes[of plain_lib "''/srv/quickview''" "at_time 1000"
          "\<lparr>ip = Some ''10.0.0.7'', remoteAddress = None,
            code = JSString (replicate 51201 (CHR ''a'')), filename = None\<rparr>" fresh]
    by (simp add: w a b clientIP_def pruned_def at_time_def) (simp add: fresh_def)
qed

text \<open>
  The claim as stated fails: a script of 50001 bytes, below 50 KiB, is rejected as too
  large.
\<close>

theorem codeTooLarge_counterexample:
  "byteLength (replicate 50001 (CHR ''a'')) \<le> 51200 \<and>
   fst (executePython plain_lib ''/srv/quickview'' (at_time 1000)
          \<lparr>ip = Some ''10.0.0.7'', remoteAddress = None,
            code = JSString (replicate 50001 (CHR ''a'')), filename = None\<rparr>
          fresh) = Respond codeTooLarge"
proof -
  have w: "window fresh ''10.0.0.7'' = []" by (simp add: window_def fresh_def)
  have "byteLength (replicate 50001 (CHR ''a'')) = 50001"
    by (rule byteLength_replicate_ascii) simp
  then show ?thesis
    by (simp add: tooLarge_when w clientIP_def pruned_def at_time_def)
qed

text \<open>
  What the statement above leaves open: the test is on \<open>code.length\<close>, which counts
  code units, and a text with characters beyond ASCII takes more bytes than that. A
  script of 51201 bytes in which all but one character take two bytes has 25601 code
  units and passes the test, against the comment "50KB limit" that stands beside it.
\<close>

lemma codeTooLarge_code_units:
  "byteLength (replicate 25600 (CHR 0xE9) @ ''a'') = 51201 \<and>
   fst (executePython plain_lib ''/srv/quickview'' (at_time 1000)
          \<lparr>ip = Some ''10.0.0.7'', remoteAddress = None,
            code = JSString (replicate 25600 (CHR 0xE9) @ ''a''), filename = None\<rparr>
          fresh) \<noteq> Respond codeTooLarge"
proof -
  have w: "window fresh ''10.0.0.7'' = []" by (simp add: window_def fresh_def)
  have "byteLength (replicate 25600 (CHR 0xE9) @ ''a'') = 51201"
    by (simp add: byteLength_append byteLength_replicate_latin byteLength_replicate_ascii[of _ 1, simplified])
  then show ?thesis
    by (simp add: tooLarge_when w clientIP_def pruned_def at_time_def)
qed

section \<open>When the child ends\<close>

lemma on_event_chunk:
  "\<not> terminal c \<Longrightarrow> \<exists>x1. script x1 = script x \<and> (\<forall>s. on_event c (x, s) = (x1, s))"
  by (cases c) simp_all

lemma run_child_chunks:
  "list_all (\<lambda>c. \<not> terminal c) chunks \<Longrightarrow>
     \<exists>x1. script x1 = script x \<and> (\<forall>s. run_child chunks (x, s) = (x1, s))"
proof (induction chunks arbitrary: x)
  case Nil
  then show ?case by (simp add: run_child_def)
next
  case (Cons c chunks)
  then have c: "\<not> terminal c" and rest: "list_all (\<lambda>c. \<not> terminal c) chunks" by simp_all
  from on_event_chunk[OF c, of x] obtain x1
    where x1: "script x1 = script x" "\<And>s. on_event c (x, s) = (x1, s)" by blast
  from Cons.IH[OF rest, of x1] obtain x2
    where x2: "script x2 = script x1" "\<And>s. run_child chunks (x1, s) = (x2, s)" by blast
  have "run_child (c # chunks) (x, s) = (x2, s)" for s
    using x1(2)[of s] x2(2)[of s] by (simp add: run_child_def)
  with x1(1) x2(1) show ?case by auto
qed

lemma run_child_append:
  "run_child (chunks @ [ev]) xs = on_event ev (run_child chunks xs)"
  by (simp add: run_child_def)

lemma cleanup_removes: "p \<notin> locked s \<Longrightarrow> disk_files (cleanup w p s) p = None"
  by (auto simp: cleanup_def unlinkSync_def)

lemma cleanup_fails:
  "unlinkSync p s = None \<Longrightarrow> cleanup w p s = s\<lparr>warnings := warnings s @ [w @ '' '' @ p]\<rparr>"
  by (simp add: cleanup_def)

lemma on_event_terminal_state:
  "terminal ev \<Longrightarrow> \<exists>w. snd (on_event ev (x, s)) = cleanup w (script x) s"
  by (cases ev) auto

lemma on_event_replies:
  "replies (fst (on_event ev (x, s))) = replies (fst (on_event ev (x, s')))"
  by (cases ev) simp_all

text \<open>
  C6. The end of a child reaches the handlers as \<open>close\<close> (exit code 0, another exit
  code, or none for a child killed by a signal or by the timeout) or as \<open>error\<close> (the
  spawn failed, or a timeout reported as an error). After any chunks of output and
  either of these events, in whatever state the server is: the temp file of the
  execution is gone unless the system refuses to remove it; where the removal fails the
  disk is left as it was and one line is written by \<open>console.warn\<close>; and the replies
  are the same whatever the state of the disk, so a failed removal changes no reply.
\<close>

theorem scratch_file_removed:
  assumes "terminal ev" and "list_all (\<lambda>c. \<not> terminal c) chunks"
  shows "(script x \<notin> locked s \<longrightarrow>
            disk_files (snd (run_child (chunks @ [ev]) (x, s))) (script x) = None) \<and>
         (unlinkSync (script x) s = None \<longrightarrow>
            disk_files (snd (run_child (chunks @ [ev]) (x, s))) = disk_files s \<and>
            length (warnings (snd (run_child (chunks @ [ev]) (x, s)))) = Suc (length (warnings s))) \<and>
         replies (fst (run_child (chunks @ [ev]) (x, s))) =
           replies (fst (run_child (chunks @ [ev]) (x, s')))"
proof -
  from run_child_chunks[OF assms(2), of x] obtain x1
    where sc: "script x1 = script x" and r: "\<And>s. run_child chunks (x, s) = (x1, s)" by blast
  obtain w where w: "snd (on_event ev (x1, s)) = cleanup w (script x) s"
    using on_event_terminal_state[OF assms(1), of x1 s] sc by auto
  show ?thesis
    unfolding run_child_append r w
    using on_event_replies[of ev x1 s s']
    by (auto simp: cleanup_removes cleanup_fails)
qed

theorem scratch_file_removed_witness:
  "disk_files (snd (executePython plain_lib ''/srv/quickview'' (at_time 1000)
        (script_from ''10.0.0.7'') fresh)) ''/srv/quickview/temp/temp_1000.py'' = Some ''print(1)'' \<and>
   disk_files (snd (run_child [StdoutData ''1'', Close (Some 0)]
     (start ''/srv/quickview/temp/temp_1000.py'',
      snd (executePython plain_lib ''/srv/quickview'' (at_time 1000)
        (script_from ''10.0.0.7'') fresh)))) ''/srv/quickview/temp/temp_1000.py'' = None"
proof -
  have l: "locked (snd (executePython plain_lib ''/srv/quickview'' (at_time 1000)
        (script_from ''10.0.0.7'') fresh)) = {}"
    by (simp add: executePython_def Let_def fresh_def window_def at_time_def script_from_def)
  have f: "disk_files (snd (executePython plain_lib ''/srv/quickview'' (at_time 1000)
        (script_from ''10.0.0.7'') fresh)) ''/srv/quickview/temp/temp_1000.py'' = Some ''print(1)''"
    by (simp add: executePython_def Let_def fresh_def window_def at_time_def script_from_def
          clientIP_def plain_lib_def joinPlain_def decimal.simps)
  show ?thesis
    using scratch_file_removed[of "Close (Some 0)" "[StdoutData ''1'']"
        "start ''/srv/quickview/temp/temp_1000.py''"
        "snd (executePython plain_lib ''/srv/quickview'' (at_time 1000)
          (script_from ''10.0.0.7'') fresh)"] l f
    by (simp add: start_def)
qed

text \<open>
  C3. A child writes to \<open>stdout\<close> and \<open>stderr\<close> and then runs into the timeout. If the
  timeout reaches the handlers as the \<open>error\<close> event with code \<open>ETIMEDOUT\<close>, which is
  what the branch under the comment "Handle timeout" waits for, the reply is 408 with
  the captured \<open>stdout\<close>; the captured \<open>stderr\<close> is not in it. If it reaches them as
  \<open>close\<close> without an exit code, the child having been killed with \<open>SIGKILL\<close>, the
  reply is the one of any failed run, with both captured texts and nothing that says
  timeout. The claim asks for a timeout result that carries both texts.
\<close>

theorem timeout_reply:
  "replies (fst (run_child
      [StdoutData ''partial output'', StderrData ''partial error'',
       Error (Some ''ETIMEDOUT'') ''spawn python3 ETIMEDOUT'']
      (start p, s))) =
     [Failed 408 ''Python script execution timed out (30 second limit)'' ''partial output''] \<and>
   replies (fst (run_child
      [StdoutData ''partial output'', StderrData ''partial error'', Close None]
      (start p, s))) =
     [Completed False ''partial output'' ''partial error'' None]"
  by (simp add: run_child_def start_def)

end
